theory Spec2Isabelle
  imports Main "HOL-Library.Multiset"
begin

section \<open>Python values, dictionaries and exceptions\<close>

text \<open>
  The downloader passes one kind of payload around: a Python \<open>dict\<close> whose keys are
  strings and whose values are strings or lists of strings. A \<open>string\<close> stands for a
  Python \<open>str\<close>, one \<open>char\<close> per code point (code points below 256); \<open>length\<close> is
  Python's \<open>len\<close>. The dictionary is an association list in the order of the literal
  that builds it; the empty dictionary \<open>{}\<close> is \<open>[]\<close>.
\<close>

datatype pyval = PStr string | PList "string list"

type_synonym pydict = "(string \<times> pyval) list"

text \<open>Python truthiness of a value: the empty string and the empty list are falsy.\<close>

fun truthy :: "pyval \<Rightarrow> bool" where
  "truthy (PStr s) = (s \<noteq> [])"
| "truthy (PList l) = (l \<noteq> [])"

text \<open>\<open>d.get(k)\<close> (\<open>None\<close> when the key is absent) and \<open>d.get(k, default)\<close>.\<close>

definition get :: "pydict \<Rightarrow> string \<Rightarrow> pyval option" where
  "get d k = map_of d k"

definition get_default :: "pydict \<Rightarrow> string \<Rightarrow> pyval \<Rightarrow> pyval" where
  "get_default d k dflt = (case map_of d k of Some v \<Rightarrow> v | None \<Rightarrow> dflt)"

text \<open>\<open>d.get(k) or None\<close>: a missing or falsy value becomes \<open>None\<close>.\<close>

definition get_or_None :: "pydict \<Rightarrow> string \<Rightarrow> pyval option" where
  "get_or_None d k =
     (case get d k of None \<Rightarrow> None | Some v \<Rightarrow> if truthy v then Some v else None)"

text \<open>The exceptions that the modelled code can meet; all are subclasses of \<open>Exception\<close>.\<close>

datatype error =
    OperationalError    \<comment> \<open>psycopg2: no connection, connection lost\<close>
  | DatabaseError       \<comment> \<open>psycopg2: a statement was refused\<close>
  | RequestException    \<comment> \<open>requests: timeout, connection error\<close>
  | JSONDecodeError     \<comment> \<open>\<open>response.json()\<close> on a body that is not JSON\<close>
  | KeyError
  | ValueError
  | EOFError

section \<open>Strings\<close>

text \<open>
  \<open>str.strip()\<close> removes leading and trailing whitespace. Among the code points below
  256 Python's whitespace is 9..13, 28..32, 133 and 160.
\<close>

definition isspace :: "char \<Rightarrow> bool" where
  "isspace c =
     (let n = (of_char c :: nat)
      in (9 \<le> n \<and> n \<le> 13) \<or> (28 \<le> n \<and> n \<le> 32) \<or> n = 133 \<or> n = 160)"

definition strip :: "string \<Rightarrow> string" where
  "strip s = rev (dropWhile isspace (rev (dropWhile isspace s)))"

text \<open>
  \<open>json.dumps\<close> of a string (with the default \<open>ensure_ascii=True\<close>): the quote and the
  backslash are escaped, the control characters 8, 9, 10, 12, 13 have short escapes, and
  every other code point outside \<open>' '..'~'\<close> is written \<open>\uXXXX\<close> in lower-case hexadecimal.
\<close>

definition hexdigit :: "nat \<Rightarrow> char" where
  "hexdigit n = (if n < 10 then char_of (48 + n) else char_of (87 + n))"

definition json_escape :: "char \<Rightarrow> string" where
  "json_escape c =
     (let n = (of_char c :: nat) in
      if n = 34 then [CHR 0x5C, CHR 0x22]
      else if n = 92 then [CHR 0x5C, CHR 0x5C]
      else if n = 10 then [CHR 0x5C, CHR ''n'']
      else if n = 13 then [CHR 0x5C, CHR ''r'']
      else if n = 9 then [CHR 0x5C, CHR ''t'']
      else if n = 8 then [CHR 0x5C, CHR ''b'']
      else if n = 12 then [CHR 0x5C, CHR ''f'']
      else if n < 32 \<or> 126 < n
        then [CHR 0x5C, CHR ''u'', CHR ''0'', CHR ''0'', hexdigit (n div 16), hexdigit (n mod 16)]
      else [c])"

definition json_string :: "string \<Rightarrow> string" where
  "json_string s = [CHR 0x22] @ concat (map json_escape s) @ [CHR 0x22]"

text \<open>\<open>json.dumps({'type': 'european_dataset', 'id': dataset_id})\<close>.\<close>

definition dumps_concepts :: "string \<Rightarrow> string" where
  \<open>dumps_concepts dataset_id =
     ''{"type": "european_dataset", "id": '' @ json_string dataset_id @ ''}''\<close>

section \<open>The normalizer: \<open>extract_europa_metadata_from_string\<close>\<close>

text \<open>
  The argument is annotated \<open>str\<close> and the catalogue returns bare identifiers, so
  \<open>str(dataset_str)\<close> is the argument itself and nothing in the \<open>try\<close> block can raise;
  the handler that returns \<open>{}\<close> is never entered. The rejected result \<open>{}\<close> is \<open>[]\<close>.
\<close>

definition extract_europa_metadata_from_string :: "string \<Rightarrow> pydict" where
  "extract_europa_metadata_from_string dataset_str =
     (let dataset_id = strip dataset_str in
      if dataset_id = [] \<or> length dataset_id < 3 then []
      else
        let source_url = ''https://data.europa.eu/data/datasets/'' @ dataset_id in
        [ (''title'', PStr (''European Dataset '' @ dataset_id)),
          (''description'',
             PStr (''Dataset from the European Data Portal with ID: '' @ dataset_id)),
          (''keywords'', PList [''european data'', ''open data'', ''government data'']),
          (''source_url'', PStr source_url),
          (''organization'', PStr ''European Data Portal''),
          (''publication_date'', PStr ''''),
          (''last_modified_date'', PStr ''''),
          (''format'', PList [''Unknown'']),
          (''license'', PStr ''Various European Licenses''),
          (''source_platform'', PStr ''data.europa.eu''),
          (''raw_id'', PStr dataset_id),
          (''author'', PStr ''European Data Portal''),
          (''maintainer'', PStr ''European Data Portal''),
          (''download_url'', PList [source_url]),
          (''groups'', PList [''european-data'', ''open-data'']),
          (''code'', PStr dataset_id),
          (''data_availability'', PStr ''metadata_only''),
          (''metadata_availability'', PStr ''available''),
          (''concepts'', PStr (dumps_concepts dataset_id)) ])"

section \<open>The chunk fetcher: \<open>download_europa_chunk\<close>\<close>

text \<open>
  What one \<open>session.get\<close> can bring back: the request raises (timeout after 30 seconds,
  no connection), or a response arrives with a status code and a body. The body is not
  JSON (\<open>response.json()\<close> raises), a JSON value that is not a list, or a list of
  identifier strings.
\<close>

datatype body = NotJson | JsonNonList | JsonList "string list"

datatype http_outcome = RequestFails | Response int body

text \<open>The remote catalogue: the outcome of the request with the given \<open>limit\<close> and \<open>offset\<close>.\<close>

type_synonym remote = "int \<Rightarrow> int \<Rightarrow> http_outcome"

text \<open>A chunk is the argument tuple \<open>(start_offset, chunk_size, existing_urls)\<close>.\<close>

type_synonym chunk = "int \<times> int \<times> pyval set"

text \<open>
  The \<open>for dataset_str in data\<close> loop, with the list \<open>datasets\<close> it appends to. An entry
  is appended when its metadata is a non-empty dictionary with a truthy \<open>source_url\<close>
  that is not in \<open>existing_urls\<close>.
\<close>

fun collect :: "pyval set \<Rightarrow> string list \<Rightarrow> pydict list \<Rightarrow> pydict list" where
  "collect existing_urls [] datasets = datasets"
| "collect existing_urls (dataset_str # data) datasets =
     (let metadata = extract_europa_metadata_from_string dataset_str in
      case (if metadata \<noteq> [] then get metadata ''source_url'' else None) of
        None \<Rightarrow> collect existing_urls data datasets
      | Some url \<Rightarrow>
          if \<not> truthy url then collect existing_urls data datasets
          else if url \<in> existing_urls then collect existing_urls data datasets
          else collect existing_urls data (datasets @ [metadata]))"

text \<open>The body of the \<open>try\<close> block: an exception is \<open>Inl\<close>, a \<open>return\<close> is \<open>Inr\<close>.\<close>

definition fetch_chunk :: "remote \<Rightarrow> chunk \<Rightarrow> error + pydict list" where
  "fetch_chunk api args =
     (let (start_offset, chunk_size, existing_urls) = args in
      (case api chunk_size start_offset of
         RequestFails \<Rightarrow> Inl RequestException
       | Response status_code payload \<Rightarrow>
           (if status_code \<noteq> 200 then Inr []
            else (case payload of
                    NotJson \<Rightarrow> Inl JSONDecodeError
                  | JsonNonList \<Rightarrow> Inr []
                  | JsonList data \<Rightarrow>
                      (if data = [] then Inr [] else Inr (collect existing_urls data []))))))"

text \<open>\<open>except Exception\<close> turns every exception of the body into the empty list.\<close>

definition download_europa_chunk :: "remote \<Rightarrow> chunk \<Rightarrow> pydict list" where
  "download_europa_chunk api args =
     (case fetch_chunk api args of Inl e \<Rightarrow> [] | Inr datasets \<Rightarrow> datasets)"

section \<open>The store\<close>

text \<open>
  One row of the table \<open>datasets\<close>, with the nineteen columns that the \<open>INSERT\<close> names,
  in its order. The two dates may be \<open>NULL\<close>.
\<close>

record row =
  title :: pyval
  description :: pyval
  keywords_col :: pyval
  source_url :: pyval
  organization :: pyval
  publication_date :: "pyval option"
  last_modified_date :: "pyval option"
  format :: pyval
  license :: pyval
  source_platform :: pyval
  raw_id :: pyval
  author :: pyval
  maintainer :: pyval
  download_url :: pyval
  groups :: pyval
  code :: pyval
  data_availability :: pyval
  metadata_availability :: pyval
  concepts :: pyval

type_synonym table = "row list"

text \<open>
  \<open>INSERT ... ON CONFLICT (source_url) DO NOTHING\<close>: the row is appended unless a row
  with its \<open>source_url\<close> is already there.
\<close>

definition insert_do_nothing :: "row \<Rightarrow> table \<Rightarrow> table" where
  "insert_do_nothing r t = (if source_url r \<in> set (map source_url t) then t else t @ [r])"

text \<open>
  A psycopg2 connection: the table as committed, and the table as the open transaction
  sees it. Leaving the \<open>with conn\<close> block commits when the block ended normally (also by
  \<open>return\<close>) and rolls back when it ended by an exception, which is raised again.
\<close>

record connection =
  committed :: table
  working :: table

definition connect :: "table \<Rightarrow> connection" where
  "connect t = \<lparr>committed = t, working = t\<rparr>"

definition execute :: "row \<Rightarrow> connection \<Rightarrow> connection" where
  "execute r conn = conn\<lparr>working := insert_do_nothing r (working conn)\<rparr>"

definition commit :: "connection \<Rightarrow> connection" where
  "commit conn = conn\<lparr>committed := working conn\<rparr>"

definition rollback :: "connection \<Rightarrow> connection" where
  "rollback conn = conn\<lparr>working := committed conn\<rparr>"

definition with_conn ::
  "(connection \<Rightarrow> error \<times> connection + 'a \<times> connection) \<Rightarrow> connection \<Rightarrow> (error + 'a) \<times> table" where
  "with_conn block conn =
     (case block conn of
        Inl (e, c) \<Rightarrow> (Inl e, committed (rollback c))
      | Inr (x, c) \<Rightarrow> (Inr x, committed (commit c)))"

text \<open>
  What can go wrong during one call that talks to the store: nothing, the connection
  cannot be opened, the statement for the row at a given position of the batch (from 0)
  raises (connection lost, a constraint other than the unique key), or the commit raises.
\<close>

datatype db_fault = NoFault | ConnectFails | ExecuteFails nat | CommitFails

text \<open>
  \<open>cursor.executemany\<close>: one statement per row, in order. The first argument is the
  number of statements still to run before the one that raises, if any.
\<close>

fun executemany :: "nat option \<Rightarrow> row list \<Rightarrow> connection \<Rightarrow> error \<times> connection + connection" where
  "executemany failing [] conn = Inr conn"
| "executemany failing (r # rs) conn =
     (if failing = Some 0 then Inl (DatabaseError, conn)
      else executemany (map_option (\<lambda>k. k - 1) failing) rs (execute r conn))"

section \<open>The batch writer: \<open>save_datasets_batch\<close>\<close>

text \<open>The tuple of parameters built for one dataset.\<close>

definition batch_row :: "pydict \<Rightarrow> row" where
  "batch_row dataset =
     \<lparr> title = get_default dataset ''title'' (PStr ''''),
       description = get_default dataset ''description'' (PStr ''''),
       keywords_col = get_default dataset ''keywords'' (PList []),
       source_url = get_default dataset ''source_url'' (PStr ''''),
       organization = get_default dataset ''organization'' (PStr ''''),
       publication_date = get_or_None dataset ''publication_date'',
       last_modified_date = get_or_None dataset ''last_modified_date'',
       format = get_default dataset ''format'' (PList []),
       license = get_default dataset ''license'' (PStr ''''),
       source_platform = get_default dataset ''source_platform'' (PStr ''''),
       raw_id = get_default dataset ''raw_id'' (PStr ''''),
       author = get_default dataset ''author'' (PStr ''''),
       maintainer = get_default dataset ''maintainer'' (PStr ''''),
       download_url = get_default dataset ''download_url'' (PList []),
       groups = get_default dataset ''groups'' (PList []),
       code = get_default dataset ''code'' (PStr ''''),
       data_availability = get_default dataset ''data_availability'' (PStr ''''),
       metadata_availability = get_default dataset ''metadata_availability'' (PStr ''''),
       concepts = get_default dataset ''concepts'' (PStr '''') \<rparr>"

text \<open>
  The block inside \<open>with conn\<close>: build \<open>batch_data\<close>, \<open>executemany\<close>, \<open>commit\<close>,
  \<open>return len(batch_data)\<close>. An exception leaves the block with the connection as it
  was when the exception was raised.
\<close>

definition insert_batch ::
  "db_fault \<Rightarrow> pydict list \<Rightarrow> connection \<Rightarrow> error \<times> connection + nat \<times> connection" where
  "insert_batch fault datasets conn =
     (let batch_data = map batch_row datasets in
      (case executemany (case fault of ExecuteFails k \<Rightarrow> Some k | _ \<Rightarrow> None) batch_data conn of
         Inl (e, c) \<Rightarrow> Inl (e, c)
       | Inr c \<Rightarrow>
           (if fault = CommitFails then Inl (OperationalError, c)
            else Inr (length batch_data, commit c))))"

text \<open>
  The function returns a count; the second component is the table of the store after
  the call. \<open>except Exception\<close> turns every exception into the result 0.
\<close>

definition save_datasets_batch :: "db_fault \<Rightarrow> table \<Rightarrow> pydict list \<Rightarrow> nat \<times> table" where
  "save_datasets_batch fault store datasets =
     (if datasets = [] then (0, store)
      else if fault = ConnectFails then (0, store)
      else (case with_conn (insert_batch fault datasets) (connect store) of
              (Inl e, store') \<Rightarrow> (0, store')
            | (Inr n, store') \<Rightarrow> (n, store')))"

section \<open>The initial key set: \<open>get_existing_europa_urls\<close>\<close>



section \<open>The orchestrator: \<open>main\<close>\<close>

text \<open>
  What the user answers to one prompt: a number, nothing (the default is taken), text
  that \<open>int\<close> refuses, or the end of the input.
\<close>

datatype reply = Typed int | Blank | Malformed | EndOfInput



text \<open>
  The loop \<open>for i in range(num_chunks)\<close> that builds \<open>chunks\<close>; \<open>range\<close> of a number
  that is not positive is empty.
\<close>

definition create_chunks :: "int \<Rightarrow> int \<Rightarrow> int \<Rightarrow> pyval set \<Rightarrow> chunk list" where
  "create_chunks start_offset chunk_size num_chunks existing_urls =
     map (\<lambda>i. (start_offset + int i * chunk_size, chunk_size, existing_urls))
       [0..<nat num_chunks]"

text \<open>
  Everything outside the program that a run depends on: the remote catalogue, the
  faults of the store at each call (the count query, the loading of the keys, the write
  of the chunk that starts at a given offset, the final statistics), the two answers of
  the user, the order in which \<open>as_completed\<close> hands the chunks back, and the moment at
  which the argument tuple of the chunk that starts at a given offset is pickled for its
  worker, counted in additions that the main process has made to \<open>existing_urls\<close> by
  then.
\<close>

record environment =
  catalogue :: remote
  count_fault :: db_fault
  load_fault :: db_fault
  write_fault :: "int \<Rightarrow> db_fault"
  stats_fault :: db_fault
  batch_reply :: reply
  workers_reply :: reply
  completion :: "chunk list \<Rightarrow> chunk list"
  pickled_at :: "int \<Rightarrow> nat"

text \<open>
  The state that the loop over the completed chunks changes: the store, the set
  \<open>existing_urls\<close> of the main process, the two counters, a trace of the effects in the
  order in which they happen, and the argument tuples as the workers received them, in
  the order in which their results are handled.
\<close>

datatype event = Saved "pydict list" nat | Added pyval

record progress =
  store :: table
  existing_urls :: "pyval set"
  total_saved :: nat
  chunk_count :: nat
  trace :: "event list"
  received :: "chunk list"

text \<open>
  \<open>for dataset in datasets: existing_urls.add(dataset['source_url'])\<close>. A missing key
  raises \<open>KeyError\<close>, which the \<open>except\<close> of the loop body catches: the urls added so
  far stay.
\<close>

fun update_urls :: "pydict list \<Rightarrow> progress \<Rightarrow> progress" where
  "update_urls [] st = st"
| "update_urls (dataset # datasets) st =
     (case get dataset ''source_url'' of
        None \<Rightarrow> st
      | Some url \<Rightarrow>
          update_urls datasets
            (st\<lparr>existing_urls := insert url (existing_urls st), trace := trace st @ [Added url]\<rparr>))"

text \<open>The urls that the trace says were added to \<open>existing_urls\<close>, in order.\<close>

fun additions :: "event list \<Rightarrow> pyval list" where
  "additions [] = []"
| "additions (Added url # events) = url # additions events"
| "additions (Saved datasets saved # events) = additions events"

text \<open>
  Every tuple of \<open>chunks\<close> holds the one set object \<open>existing_urls\<close> of the main process
  (line 218), which the loop over the results goes on changing (lines 243 and 244). A
  worker is another process: it receives the copy that is made when the tuple is pickled,
  and \<open>ProcessPoolExecutor\<close> pickles a tuple only when it moves it to its call queue,
  which can be any moment before the result of the chunk is handled. The copy is the set
  as it was when the chunks were created together with the additions made up to that
  moment, the first \<open>pickled_at\<close> of those in the trace (all of them, when there are
  fewer).
\<close>

definition pickled :: "environment \<Rightarrow> progress \<Rightarrow> chunk \<Rightarrow> chunk" where
  "pickled env st chunk =
     (case chunk of (start_offset, chunk_size, urls) \<Rightarrow>
        (start_offset, chunk_size,
         urls \<union> set (take (pickled_at env start_offset) (additions (trace st)))))"

text \<open>
  One turn of the loop over \<open>as_completed\<close>. \<open>future.result()\<close> is what the worker
  computed from the argument tuple that it received.
\<close>

definition handle_result :: "environment \<Rightarrow> progress \<Rightarrow> chunk \<Rightarrow> progress" where
  "handle_result env st chunk =
     (let args = pickled env st chunk;
          datasets = download_europa_chunk (catalogue env) args;
          st = st\<lparr>received := received st @ [args]\<rparr>
      in if datasets \<noteq> [] then
           (case save_datasets_batch (write_fault env (fst chunk)) (store st) datasets of
              (saved, store') \<Rightarrow>
                update_urls datasets
                  (st\<lparr>store := store',
                      total_saved := total_saved st + saved,
                      chunk_count := chunk_count st + 1,
                      trace := trace st @ [Saved datasets saved]\<rparr>))
         else st)"

text \<open>
  Lines 204 to 257 of \<open>main\<close>: the chunks are computed from the start offset and the
  requested number of datasets, all are submitted, and the results are handled in the
  order of completion.
\<close>

definition run_chunks :: "environment \<Rightarrow> pyval set \<Rightarrow> int \<Rightarrow> int \<Rightarrow> table \<Rightarrow> progress" where
  "run_chunks env urls start_offset batch_size db =
     (let chunk_size = 5000;
          num_chunks = batch_size div chunk_size;
          chunks = create_chunks start_offset chunk_size num_chunks urls
      in foldl (handle_result env)
           \<lparr>store = db, existing_urls = urls, total_saved = 0, chunk_count = 0, trace = [],
            received = []\<rparr>
           (completion env chunks))"




section \<open>Notions used in the statements\<close>

text \<open>The normalizer accepts an entry when its trimmed text has at least 3 characters.\<close>

definition accepted :: "string \<Rightarrow> bool" where
  "accepted raw = (3 \<le> length (strip raw))"

text \<open>The key of a dataset, \<open>dataset.get('source_url', '')\<close>, as the batch writer reads it.\<close>

definition url_of :: "pydict \<Rightarrow> pyval" where
  "url_of d = get_default d ''source_url'' (PStr '''')"

text \<open>The keys present in the store.\<close>

definition keys :: "table \<Rightarrow> pyval set" where
  "keys t = source_url ` set t"

text \<open>The rows of a batch inserted one after the other, each skipped on conflict.\<close>

definition insert_all :: "row list \<Rightarrow> table \<Rightarrow> table" where
  "insert_all rows t = foldl (\<lambda>t r. insert_do_nothing r t) t rows"

text \<open>
  Whether a fault makes the write of a batch of \<open>n\<close> rows raise: a statement position
  beyond the batch is never reached.
\<close>

definition batch_fails :: "db_fault \<Rightarrow> nat \<Rightarrow> bool" where
  "batch_fails fault n =
     (case fault of NoFault \<Rightarrow> False | ConnectFails \<Rightarrow> True
      | ExecuteFails k \<Rightarrow> k < n | CommitFails \<Rightarrow> True)"

text \<open>The offsets that a list of chunks asks the catalogue for.\<close>

definition covered :: "chunk list \<Rightarrow> int set" where
  "covered chunks =
     (\<Union>(start_offset, chunk_size, urls) \<in> set chunks. {start_offset ..< start_offset + chunk_size})"

text \<open>
  The set of the main process is the given set of the start together with the additions
  of the trace.
\<close>

definition tracked :: "pyval set \<Rightarrow> progress \<Rightarrow> bool" where
  "tracked urls st = (existing_urls st = urls \<union> set (additions (trace st)))"

section \<open>Example runs\<close>

text \<open>
  Every page of the catalogue holds the one identifier \<open>abcd\<close>; the user asks for 10000
  datasets, so there are two chunks, which complete in reverse order; both tuples are
  pickled before any result is handled (two chunks find room in the call queue of the
  default eight workers at once); the store works.
\<close>

definition two_copies_env :: environment where
  "two_copies_env =
     \<lparr> catalogue = (\<lambda>n off. Response 200 (JsonList [''abcd''])),
       count_fault = NoFault,
       load_fault = NoFault,
       write_fault = (\<lambda>off. NoFault),
       stats_fault = NoFault,
       batch_reply = Typed 10000,
       workers_reply = Blank,
       completion = rev,
       pickled_at = (\<lambda>off. 0) \<rparr>"



text \<open>
  The same as the first, but the tuple of the chunk at offset 0, whose result is handled
  last, is pickled after the main process has made its first addition.
\<close>

definition late_pickle_env :: environment where
  "late_pickle_env = two_copies_env\<lparr>pickled_at := (\<lambda>off. if off = 0 then 1 else 0)\<rparr>"

section \<open>Properties of the normalizer\<close>

lemma extract_rejected:
  "\<not> accepted raw \<Longrightarrow> extract_europa_metadata_from_string raw = []"
  by (simp add: accepted_def extract_europa_metadata_from_string_def Let_def)

lemma extract_accepted_nonempty:
  "accepted raw \<Longrightarrow> extract_europa_metadata_from_string raw \<noteq> []"
  by (auto simp add: accepted_def extract_europa_metadata_from_string_def Let_def)

lemma extract_source_url:
  "accepted raw \<Longrightarrow>
     get (extract_europa_metadata_from_string raw) ''source_url'' =
       Some (PStr (''https://data.europa.eu/data/datasets/'' @ strip raw))"
  by (auto simp add: accepted_def extract_europa_metadata_from_string_def Let_def get_def)

lemma extract_source_platform:
  "accepted raw \<Longrightarrow>
     get_default (extract_europa_metadata_from_string raw) ''source_platform'' (PStr '''') =
       PStr ''data.europa.eu''"
  by (auto simp add: accepted_def extract_europa_metadata_from_string_def Let_def
        get_default_def)

lemma url_of_extract:
  "accepted raw \<Longrightarrow>
     url_of (extract_europa_metadata_from_string raw) =
       PStr (''https://data.europa.eu/data/datasets/'' @ strip raw)"
  using extract_source_url[of raw] by (simp add: url_of_def get_default_def get_def)

lemma source_url_batch_row: "source_url (batch_row d) = url_of d"
  by (simp add: batch_row_def url_of_def)

section \<open>Properties of the chunk fetcher\<close>

text \<open>
  The loop keeps, in the order of the page, the non-empty results of the normalizer
  whose key is not in the set it was given.
\<close>

lemma collect_eq:
  "collect E data acc =
     acc @ filter (\<lambda>d. url_of d \<notin> E)
             (filter (\<lambda>d. d \<noteq> []) (map extract_europa_metadata_from_string data))"
proof (induction data arbitrary: acc)
  case Nil
  show ?case by simp
next
  case (Cons raw data)
  show ?case
  proof (cases "accepted raw")
    case False
    then show ?thesis using Cons.IH by (simp add: extract_rejected)
  next
    case True
    then show ?thesis
      using Cons.IH extract_source_url[OF True] url_of_extract[OF True]
        extract_accepted_nonempty[OF True]
      by (simp add: Let_def)
  qed
qed

lemma download_page:
  "api n off = Response 200 (JsonList data) \<Longrightarrow>
     download_europa_chunk api (off, n, E) =
       filter (\<lambda>d. url_of d \<notin> E)
         (filter (\<lambda>d. d \<noteq> []) (map extract_europa_metadata_from_string data))"
  by (simp add: download_europa_chunk_def fetch_chunk_def collect_eq)

lemma download_cases:
  "download_europa_chunk api (off, n, E) = [] \<or>
     (\<exists>data. api n off = Response 200 (JsonList data))"
  by (auto simp add: download_europa_chunk_def fetch_chunk_def
        split: http_outcome.splits body.splits)

lemma download_member:
  assumes "d \<in> set (download_europa_chunk api (off, n, E))"
  shows "\<exists>data raw. api n off = Response 200 (JsonList data) \<and> raw \<in> set data \<and>
           accepted raw \<and> d = extract_europa_metadata_from_string raw \<and> url_of d \<notin> E"
proof -
  from assms download_cases[of api off n E]
  obtain data where page: "api n off = Response 200 (JsonList data)" by auto
  from assms download_page[of api n off data E] page
  obtain raw where "raw \<in> set data" "d = extract_europa_metadata_from_string raw"
      "d \<noteq> []" "url_of d \<notin> E"
    by auto
  moreover from this have "accepted raw" using extract_rejected by blast
  ultimately show ?thesis using page by blast
qed

section \<open>Claims about the normalizer and the chunk fetcher\<close>

text \<open>
  C8. An entry whose trimmed text is empty or shorter than 3 characters gets the empty
  result from the normalizer (a value, not an exception), and every record that the
  chunk fetcher returns comes from an entry of the page whose trimmed text has at least
  3 characters: no record of a short entry is ever in the fetcher's output.
\<close>

theorem short_identifier_rejected:
  "(length (strip raw) < 3 \<longrightarrow> extract_europa_metadata_from_string raw = []) \<and>
   (\<forall>d \<in> set (download_europa_chunk api (off, n, E)).
      \<exists>data raw'. api n off = Response 200 (JsonList data) \<and> raw' \<in> set data \<and>
        3 \<le> length (strip raw') \<and> d = extract_europa_metadata_from_string raw')"
proof (intro conjI impI ballI)
  assume "length (strip raw) < 3"
  then show "extract_europa_metadata_from_string raw = []"
    by (simp add: extract_rejected accepted_def)
next
  fix d assume "d \<in> set (download_europa_chunk api (off, n, E))"
  from download_member[OF this]
  show "\<exists>data raw'. api n off = Response 200 (JsonList data) \<and> raw' \<in> set data \<and>
          3 \<le> length (strip raw') \<and> d = extract_europa_metadata_from_string raw'"
    unfolding accepted_def by blast
qed

theorem short_identifier_rejected_witness:
  "length (strip '' ab '') < 3 \<and>
   extract_europa_metadata_from_string '' ab '' = [] \<and>
   extract_europa_metadata_from_string ''abcd''
     \<in> set (download_europa_chunk (\<lambda>n off. Response 200 (JsonList ['' ab '', ''abcd'']))
              (0, 5000, {})) \<and>
   (\<exists>data raw'. Response 200 (JsonList ['' ab '', ''abcd'']) = Response 200 (JsonList data) \<and>
      raw' \<in> set data \<and> 3 \<le> length (strip raw') \<and>
      extract_europa_metadata_from_string ''abcd'' = extract_europa_metadata_from_string raw')"
proof -
  have short: "length (strip '' ab '') < 3"
    by code_simp
  have member: "extract_europa_metadata_from_string ''abcd''
     \<in> set (download_europa_chunk (\<lambda>n off. Response 200 (JsonList ['' ab '', ''abcd'']))
              (0, 5000, {}))"
    by code_simp
  from short member
    short_identifier_rejected[of "'' ab ''"
      "\<lambda>n off. Response 200 (JsonList ['' ab '', ''abcd''])" 0 5000 "{}"]
  show ?thesis by blast
qed

text \<open>
  C7. The chunk fetcher lets no exception out: whatever the body of its \<open>try\<close> raises,
  the result is the empty list. In particular a request that fails (a timeout), a
  status other than 200, a body that is not JSON and a JSON value that is not a list
  each give the empty list.
\<close>

theorem fetch_failures_give_empty:
  "(fetch_chunk api (off, n, E) = Inl e \<longrightarrow> download_europa_chunk api (off, n, E) = []) \<and>
   (api n off = RequestFails \<longrightarrow> download_europa_chunk api (off, n, E) = []) \<and>
   (api n off = Response status payload \<and> status \<noteq> 200 \<longrightarrow>
      download_europa_chunk api (off, n, E) = []) \<and>
   (api n off = Response 200 NotJson \<longrightarrow> download_europa_chunk api (off, n, E) = []) \<and>
   (api n off = Response 200 JsonNonList \<longrightarrow> download_europa_chunk api (off, n, E) = [])"
  by (simp add: download_europa_chunk_def fetch_chunk_def)

theorem fetch_failures_give_empty_witness:
  "fetch_chunk (\<lambda>n off. RequestFails) (0, 5000, {}) = Inl RequestException \<and>
   download_europa_chunk (\<lambda>n off. RequestFails) (0, 5000, {}) = [] \<and>
   (503::int) \<noteq> 200 \<and>
   download_europa_chunk (\<lambda>n off. Response 503 (JsonList [''abcd''])) (0, 5000, {}) = [] \<and>
   download_europa_chunk (\<lambda>n off. Response 200 NotJson) (0, 5000, {}) = [] \<and>
   download_europa_chunk (\<lambda>n off. Response 200 JsonNonList) (0, 5000, {}) = []"
proof -
  have raised: "fetch_chunk (\<lambda>n off. RequestFails) (0, 5000, {}) = Inl RequestException"
    by (simp add: fetch_chunk_def)
  show ?thesis
    using raised
      fetch_failures_give_empty[of "\<lambda>n off. RequestFails" 0 5000 "{}" RequestException]
      fetch_failures_give_empty[of "\<lambda>n off. Response 503 (JsonList [''abcd''])" 0 5000 "{}"
        RequestException 503 "JsonList [''abcd'']"]
      fetch_failures_give_empty[of "\<lambda>n off. Response 200 NotJson" 0 5000 "{}"]
      fetch_failures_give_empty[of "\<lambda>n off. Response 200 JsonNonList" 0 5000 "{}"]
    by simp
qed

text \<open>
  C3, as the specification states it, fails: the fetcher does filter. An entry that the
  normalizer accepts is missing from the fetcher's result when its key is in the key set
  of the chunk.
\<close>

theorem fetcher_drops_known_key:
  "accepted ''abcd'' \<and>
   extract_europa_metadata_from_string ''abcd'' \<noteq> [] \<and>
   extract_europa_metadata_from_string ''abcd'' \<notin>
     set (download_europa_chunk (\<lambda>n off. Response 200 (JsonList [''abcd'']))
            (0, 5000, {PStr ''https://data.europa.eu/data/datasets/abcd''}))"
  by code_simp

text \<open>
  C3, amended. The fetcher filters against the key set that its chunk carries: for a
  page that arrives with status 200 as a list, the result is, in the order of the page,
  the records that the normalizer accepts and whose \<open>source_url\<close> is not in that set; an
  accepted entry is in the result exactly when its key is not in the set.
\<close>

theorem fetcher_filters_against_chunk_keys:
  "api n off = Response 200 (JsonList data) \<Longrightarrow>
     download_europa_chunk api (off, n, E) =
       filter (\<lambda>d. url_of d \<notin> E)
         (filter (\<lambda>d. d \<noteq> []) (map extract_europa_metadata_from_string data)) \<and>
     (\<forall>raw \<in> set data. accepted raw \<longrightarrow>
        (extract_europa_metadata_from_string raw \<in> set (download_europa_chunk api (off, n, E))
           \<longleftrightarrow> url_of (extract_europa_metadata_from_string raw) \<notin> E))"
proof -
  assume page: "api n off = Response 200 (JsonList data)"
  have eq: "download_europa_chunk api (off, n, E) =
       filter (\<lambda>d. url_of d \<notin> E)
         (filter (\<lambda>d. d \<noteq> []) (map extract_europa_metadata_from_string data))"
    using download_page[of api n off data E] page by simp
  show ?thesis
    unfolding eq using extract_accepted_nonempty by auto
qed

theorem fetcher_filters_against_chunk_keys_witness:
  "download_europa_chunk (\<lambda>n off. Response 200 (JsonList [''abcd'', ''x'', ''efgh'']))
      (0, 5000, {PStr ''https://data.europa.eu/data/datasets/abcd''})
     = [extract_europa_metadata_from_string ''efgh''] \<and>
   extract_europa_metadata_from_string ''efgh''
     \<in> set (download_europa_chunk (\<lambda>n off. Response 200 (JsonList [''abcd'', ''x'', ''efgh'']))
            (0, 5000, {PStr ''https://data.europa.eu/data/datasets/abcd''}))"
proof -
  have a: "accepted ''efgh''"
    by code_simp
  have u: "url_of (extract_europa_metadata_from_string ''efgh'')
             \<notin> {PStr ''https://data.europa.eu/data/datasets/abcd''}"
    by code_simp
  have f: "filter (\<lambda>d. url_of d \<notin> {PStr ''https://data.europa.eu/data/datasets/abcd''})
         (filter (\<lambda>d. d \<noteq> [])
            (map extract_europa_metadata_from_string [''abcd'', ''x'', ''efgh'']))
       = [extract_europa_metadata_from_string ''efgh'']"
    by code_simp
  from fetcher_filters_against_chunk_keys
         [of "\<lambda>n off. Response 200 (JsonList [''abcd'', ''x'', ''efgh''])" 5000 0
             "[''abcd'', ''x'', ''efgh'']" "{PStr ''https://data.europa.eu/data/datasets/abcd''}"]
       a u f
  show ?thesis by simp
qed

section \<open>Properties of the store and of the batch writer\<close>

lemma committed_execute: "committed (execute r c) = committed c"
  by (simp add: execute_def)

lemma executemany_committed:
  "executemany failing rows c = Inl (e, c') \<Longrightarrow> committed c' = committed c"
  "executemany failing rows c = Inr c' \<Longrightarrow> committed c' = committed c"
  by (induction failing rows c rule: executemany.induct)
     (auto simp add: committed_execute split: if_splits)

lemma executemany_None:
  "executemany None rows c = Inr (c\<lparr>working := insert_all rows (working c)\<rparr>)"
  by (induction rows arbitrary: c) (simp_all add: insert_all_def execute_def)

lemma executemany_late:
  "length rows \<le> k \<Longrightarrow>
     executemany (Some k) rows c = Inr (c\<lparr>working := insert_all rows (working c)\<rparr>)"
  by (induction rows arbitrary: c k) (auto simp add: insert_all_def execute_def)

lemma executemany_early:
  "k < length rows \<Longrightarrow> \<exists>c'. executemany (Some k) rows c = Inl (DatabaseError, c')"
proof (induction rows arbitrary: c k)
  case Nil then show ?case by simp
next
  case (Cons r rows)
  show ?case
  proof (cases k)
    case 0 then show ?thesis by simp
  next
    case (Suc j)
    with Cons.prems have "j < length rows" by simp
    from Cons.IH[OF this, of "execute r c"] Suc show ?thesis by simp
  qed
qed

lemma save_datasets_batch_eq:
  "save_datasets_batch fault db datasets =
     (if datasets = [] \<or> batch_fails fault (length datasets) then (0, db)
      else (length datasets, insert_all (map batch_row datasets) db))"
proof (cases fault)
  case NoFault
  then show ?thesis
    by (simp add: save_datasets_batch_def batch_fails_def with_conn_def insert_batch_def Let_def
          executemany_None connect_def commit_def)
next
  case ConnectFails
  then show ?thesis by (simp add: save_datasets_batch_def batch_fails_def)
next
  case (ExecuteFails k)
  show ?thesis
  proof (cases "k < length datasets")
    case True
    then obtain c' where
      c': "executemany (Some k) (map batch_row datasets) (connect db) = Inl (DatabaseError, c')"
      using executemany_early[of k "map batch_row datasets" "connect db"] by auto
    from executemany_committed(1)[OF c'] have "committed c' = db" by (simp add: connect_def)
    then show ?thesis using True ExecuteFails c'
      by (simp add: save_datasets_batch_def batch_fails_def with_conn_def insert_batch_def Let_def
            rollback_def)
  next
    case False
    then show ?thesis using ExecuteFails
      by (simp add: save_datasets_batch_def batch_fails_def with_conn_def insert_batch_def Let_def
            executemany_late connect_def commit_def)
  qed
next
  case CommitFails
  then show ?thesis
    by (simp add: save_datasets_batch_def batch_fails_def with_conn_def insert_batch_def Let_def
          executemany_None connect_def rollback_def)
qed

lemma keys_insert_do_nothing:
  "keys (insert_do_nothing r t) = insert (source_url r) (keys t)"
  by (auto simp add: insert_do_nothing_def keys_def)

lemma distinct_insert_do_nothing:
  "distinct (map source_url t) \<Longrightarrow> distinct (map source_url (insert_do_nothing r t))"
  by (auto simp add: insert_do_nothing_def)

lemma insert_all_Cons: "insert_all (r # rows) t = insert_all rows (insert_do_nothing r t)"
  by (simp add: insert_all_def)

lemma keys_insert_all:
  "keys (insert_all rows t) = source_url ` set rows \<union> keys t"
proof (induction rows arbitrary: t)
  case Nil show ?case by (simp add: insert_all_def)
next
  case (Cons r rows)
  show ?case unfolding insert_all_Cons Cons.IH keys_insert_do_nothing by auto
qed

lemma distinct_insert_all:
  "distinct (map source_url t) \<Longrightarrow> distinct (map source_url (insert_all rows t))"
proof (induction rows arbitrary: t)
  case Nil then show ?case by (simp add: insert_all_def)
next
  case (Cons r rows)
  then show ?case unfolding insert_all_Cons by (simp add: distinct_insert_do_nothing)
qed


lemma save_keys_mono:
  "keys db \<subseteq> keys (snd (save_datasets_batch fault db datasets))"
  by (simp add: save_datasets_batch_eq keys_insert_all)

lemma save_distinct:
  "distinct (map source_url db) \<Longrightarrow>
     distinct (map source_url (snd (save_datasets_batch fault db datasets)))"
  by (simp add: save_datasets_batch_eq distinct_insert_all)

lemma save_success_keys:
  "\<not> batch_fails fault (length datasets) \<Longrightarrow> d \<in> set datasets \<Longrightarrow>
     url_of d \<in> keys (snd (save_datasets_batch fault db datasets))"
  by (auto simp add: save_datasets_batch_eq keys_insert_all source_url_batch_row[symmetric])


lemma store_update_urls: "store (update_urls datasets st) = store st"
  by (induction datasets st rule: update_urls.induct) (auto split: option.splits)

lemma received_update_urls: "received (update_urls datasets st) = received st"
  by (induction datasets st rule: update_urls.induct) (auto split: option.splits)

lemma fst_pickled: "fst (pickled env st chunk) = fst chunk"
  by (simp add: pickled_def split: prod.splits)

lemma size_pickled: "fst (snd (pickled env st chunk)) = fst (snd chunk)"
  by (simp add: pickled_def split: prod.splits)

lemma store_handle_result:
  "store (handle_result env st chunk) =
     snd (save_datasets_batch (write_fault env (fst chunk)) (store st)
            (download_europa_chunk (catalogue env) (pickled env st chunk)))"
  by (simp add: handle_result_def Let_def store_update_urls split: prod.splits)
     (simp add: save_datasets_batch_def)

lemma received_handle_result:
  "received (handle_result env st chunk) = received st @ [pickled env st chunk]"
  by (simp add: handle_result_def Let_def received_update_urls split: prod.splits)

lemma run_distinct:
  "distinct (map source_url (store st)) \<Longrightarrow>
     distinct (map source_url (store (foldl (handle_result env) st chunks)))"
  by (induction chunks arbitrary: st) (simp_all add: store_handle_result save_distinct)

lemma run_keys_mono:
  "keys (store st) \<subseteq> keys (store (foldl (handle_result env) st chunks))"
proof (induction chunks arbitrary: st)
  case Nil show ?case by simp
next
  case (Cons c chunks)
  have "keys (store st) \<subseteq> keys (store (handle_result env st c))"
    unfolding store_handle_result by (rule save_keys_mono)
  with Cons.IH[of "handle_result env st c"] show ?case by auto
qed

text \<open>
  The tuples are received in the order of completion, each with the offset and the size
  of its chunk.
\<close>

lemma run_received_chunks:
  "map (\<lambda>c. (fst c, fst (snd c))) (received (foldl (handle_result env) st chunks)) =
     map (\<lambda>c. (fst c, fst (snd c))) (received st) @ map (\<lambda>c. (fst c, fst (snd c))) chunks"
  by (induction chunks arbitrary: st)
     (simp_all add: received_handle_result fst_pickled size_pickled)

text \<open>
  The records of a received tuple whose write did not fail have their keys in the
  store at the end.
\<close>

lemma run_written:
  assumes "c \<in> set (received (foldl (handle_result env) st chunks))"
    and "d \<in> set (download_europa_chunk (catalogue env) c)"
    and "\<not> batch_fails (write_fault env (fst c))
             (length (download_europa_chunk (catalogue env) c))"
  shows "c \<in> set (received st) \<or>
         url_of d \<in> keys (store (foldl (handle_result env) st chunks))"
  using assms(1)
proof (induction chunks arbitrary: st)
  case Nil then show ?case by simp
next
  case (Cons c' chunks)
  from Cons.prems have "c \<in> set (received (foldl (handle_result env) (handle_result env st c') chunks))"
    by simp
  from Cons.IH[OF this]
  consider (old) "c \<in> set (received st)" | (new) "c = pickled env st c'"
    | (later) "url_of d \<in> keys (store (foldl (handle_result env) (handle_result env st c') chunks))"
    by (auto simp add: received_handle_result)
  then show ?case
  proof cases
    case old then show ?thesis by simp
  next
    case new
    have "url_of d \<in> keys (store (handle_result env st c'))"
      unfolding store_handle_result using assms(2,3) new
      by (simp add: save_success_keys fst_pickled)
    with run_keys_mono[of "handle_result env st c'" env chunks] show ?thesis by auto
  next
    case later then show ?thesis by simp
  qed
qed


lemma insert_batch_committed:
  "insert_batch fault datasets c0 = Inl (e, c) \<Longrightarrow> committed c = committed c0"
  by (auto simp add: insert_batch_def Let_def executemany_committed
        split: sum.splits if_splits prod.splits)

lemma count_list_distinct:
  "distinct xs \<Longrightarrow> x \<in> set xs \<Longrightarrow> count_list xs x = 1"
  by (induction xs) (auto simp add: count_list_0_iff)


section \<open>Claims about the batch writer\<close>

text \<open>
  C10. \<open>save_datasets_batch\<close> always returns a count (its only \<open>try\<close> catches every
  exception), and it is atomic on failure: when the connection cannot be opened, or the
  block inside \<open>with conn\<close> raises at any statement or at the commit, the store is left
  as it was before the call, also when some rows of the batch had already been inserted
  in the open transaction, and the result is 0, the same as for an empty batch.
\<close>

theorem save_batch_atomic:
  "(\<exists>count db'. save_datasets_batch fault db datasets = (count, db')) \<and>
   (fault = ConnectFails \<or> (\<exists>e c. insert_batch fault datasets (connect db) = Inl (e, c))
      \<longrightarrow> save_datasets_batch fault db datasets = (0, db) \<and>
          save_datasets_batch fault db datasets = save_datasets_batch fault db [])"
proof (rule conjI)
  show "\<exists>count db'. save_datasets_batch fault db datasets = (count, db')"
    by (cases "save_datasets_batch fault db datasets") blast
next
  show "fault = ConnectFails \<or> (\<exists>e c. insert_batch fault datasets (connect db) = Inl (e, c))
      \<longrightarrow> save_datasets_batch fault db datasets = (0, db) \<and>
          save_datasets_batch fault db datasets = save_datasets_batch fault db []"
  proof (rule impI)
    assume failure: "fault = ConnectFails \<or>
      (\<exists>e c. insert_batch fault datasets (connect db) = Inl (e, c))"
    have empty: "save_datasets_batch fault db [] = (0, db)"
      by (simp add: save_datasets_batch_def)
    have "save_datasets_batch fault db datasets = (0, db)"
    proof (cases "fault = ConnectFails")
      case True
      then show ?thesis by (simp add: save_datasets_batch_def)
    next
      case False
      with failure obtain e c where
        raised: "insert_batch fault datasets (connect db) = Inl (e, c)" by blast
      from insert_batch_committed[OF raised] have "committed c = db"
        by (simp add: connect_def)
      with raised show ?thesis
        by (simp add: save_datasets_batch_def with_conn_def rollback_def)
    qed
    with empty show "save_datasets_batch fault db datasets = (0, db) \<and>
            save_datasets_batch fault db datasets = save_datasets_batch fault db []"
      by simp
  qed
qed

theorem save_batch_atomic_witness:
  "insert_batch (ExecuteFails 1)
      [extract_europa_metadata_from_string ''abcd'', extract_europa_metadata_from_string ''efgh'']
      (connect [])
     = Inl (DatabaseError,
            \<lparr>committed = [],
             working = [batch_row (extract_europa_metadata_from_string ''abcd'')]\<rparr>) \<and>
   save_datasets_batch (ExecuteFails 1) []
      [extract_europa_metadata_from_string ''abcd'', extract_europa_metadata_from_string ''efgh'']
     = (0, [])"
proof -
  have raised: "insert_batch (ExecuteFails 1)
      [extract_europa_metadata_from_string ''abcd'', extract_europa_metadata_from_string ''efgh'']
      (connect [])
     = Inl (DatabaseError,
            \<lparr>committed = [],
             working = [batch_row (extract_europa_metadata_from_string ''abcd'')]\<rparr>)"
    by code_simp
  from raised
    save_batch_atomic[of "ExecuteFails 1" "[]"
      "[extract_europa_metadata_from_string ''abcd'', extract_europa_metadata_from_string ''efgh'']"]
  show ?thesis by blast
qed

text \<open>
  C1 fails on the code: the function returns \<open>len(batch_data)\<close>, so a record that is
  skipped on conflict is counted. With one row in the store and a batch that holds the
  same key, the store is unchanged and the result is 1. (The result 0 for the empty batch
  is \<open>save_datasets_batch_eq\<close>.)
\<close>

theorem save_batch_counts_skipped_row:
  "save_datasets_batch NoFault [batch_row (extract_europa_metadata_from_string ''abcd'')]
      [extract_europa_metadata_from_string ''abcd'']
     = (1, [batch_row (extract_europa_metadata_from_string ''abcd'')])"
  by code_simp

text \<open>
  C5. A store whose keys are pairwise different keeps this property through a whole
  run, whatever the order in which the chunks complete, whatever key set each worker
  received and whatever fails. Every chunk that \<open>as_completed\<close> hands back is handled, and
  when the batch of a chunk is written without a failure, the store holds exactly one row
  with the key of each of its records at the end of the run, however many chunks of the
  run brought a copy of it.
\<close>

theorem store_keys_stay_unique:
  assumes "distinct (map source_url db)"
  shows "distinct (map source_url (store (run_chunks env urls start_offset batch_size db))) \<and>
    map (\<lambda>c. (fst c, fst (snd c))) (received (run_chunks env urls start_offset batch_size db)) =
      map (\<lambda>c. (fst c, fst (snd c)))
        (completion env (create_chunks start_offset 5000 (batch_size div 5000) urls)) \<and>
    (\<forall>c \<in> set (received (run_chunks env urls start_offset batch_size db)).
       \<forall>d \<in> set (download_europa_chunk (catalogue env) c).
         \<not> batch_fails (write_fault env (fst c))
             (length (download_europa_chunk (catalogue env) c)) \<longrightarrow>
         count_list (map source_url (store (run_chunks env urls start_offset batch_size db)))
           (url_of d) = 1)"
proof (intro conjI ballI impI)
  show unique: "distinct (map source_url (store (run_chunks env urls start_offset batch_size db)))"
    using assms by (simp add: run_chunks_def Let_def run_distinct)
  show "map (\<lambda>c. (fst c, fst (snd c))) (received (run_chunks env urls start_offset batch_size db)) =
      map (\<lambda>c. (fst c, fst (snd c)))
        (completion env (create_chunks start_offset 5000 (batch_size div 5000) urls))"
    by (simp add: run_chunks_def Let_def run_received_chunks)
  fix c d
  assume c: "c \<in> set (received (run_chunks env urls start_offset batch_size db))"
    and d: "d \<in> set (download_europa_chunk (catalogue env) c)"
    and ok: "\<not> batch_fails (write_fault env (fst c))
             (length (download_europa_chunk (catalogue env) c))"
  let ?st0 = "\<lparr>store = db, existing_urls = urls, total_saved = 0, chunk_count = 0, trace = [],
               received = []\<rparr>"
  let ?cs = "completion env (create_chunks start_offset 5000 (batch_size div 5000) urls)"
  from c have "c \<in> set (received (foldl (handle_result env) ?st0 ?cs))"
    by (simp add: run_chunks_def Let_def)
  from run_written[OF this d ok]
  have "url_of d \<in> keys (store (run_chunks env urls start_offset batch_size db))"
    by (simp add: run_chunks_def Let_def)
  then have "url_of d \<in> set (map source_url (store (run_chunks env urls start_offset batch_size db)))"
    by (simp add: keys_def)
  with unique
  show "count_list (map source_url (store (run_chunks env urls start_offset batch_size db)))
           (url_of d) = 1"
    by (rule count_list_distinct)
qed

theorem store_keys_stay_unique_witness:
  "distinct (map source_url ([] :: table)) \<and>
   received (run_chunks two_copies_env {} 0 10000 []) = [(5000, 5000, {}), (0, 5000, {})] \<and>
   download_europa_chunk (catalogue two_copies_env) (0, 5000, {})
     = [extract_europa_metadata_from_string ''abcd''] \<and>
   download_europa_chunk (catalogue two_copies_env) (5000, 5000, {})
     = [extract_europa_metadata_from_string ''abcd''] \<and>
   \<not> batch_fails (write_fault two_copies_env 5000) 1 \<and>
   distinct (map source_url (store (run_chunks two_copies_env {} 0 10000 []))) \<and>
   count_list (map source_url (store (run_chunks two_copies_env {} 0 10000 [])))
     (url_of (extract_europa_metadata_from_string ''abcd'')) = 1"
proof -
  have d0: "distinct (map source_url ([] :: table))" by simp
  have r: "received (run_chunks two_copies_env {} 0 10000 []) = [(5000, 5000, {}), (0, 5000, {})]"
    by code_simp
  have a: "download_europa_chunk (catalogue two_copies_env) (0, 5000, {})
     = [extract_europa_metadata_from_string ''abcd'']" by code_simp
  have b: "download_europa_chunk (catalogue two_copies_env) (5000, 5000, {})
     = [extract_europa_metadata_from_string ''abcd'']" by code_simp
  have f: "\<not> batch_fails (write_fault two_copies_env 5000) 1" by code_simp
  from store_keys_stay_unique[OF d0, of two_copies_env "{}" 0 10000] r a b f
  show ?thesis by simp
qed

section \<open>Properties of the orchestrator\<close>

lemma download_has_key:
  assumes "d \<in> set (download_europa_chunk api (off, n, E))"
  shows "get d ''source_url'' = Some (url_of d)"
proof -
  from download_member[OF assms] obtain raw where
    "accepted raw" "d = extract_europa_metadata_from_string raw" by blast
  then show ?thesis using extract_source_url[of raw] url_of_extract[of raw] by simp
qed

lemma update_urls_eq:
  "\<forall>d \<in> set datasets. get d ''source_url'' = Some (url_of d) \<Longrightarrow>
     update_urls datasets st =
       st\<lparr>existing_urls := existing_urls st \<union> url_of ` set datasets,
          trace := trace st @ map (\<lambda>d. Added (url_of d)) datasets\<rparr>"
proof (induction datasets arbitrary: st)
  case Nil
  show ?case by simp
next
  case (Cons d datasets)
  then show ?case by (simp add: Un_commute insert_commute)
qed

lemma additions_append: "additions (es @ es') = additions es @ additions es'"
  by (induction es rule: additions.induct) simp_all

lemma additions_added: "additions (map (\<lambda>d. Added (url_of d)) datasets) = map url_of datasets"
  by (induction datasets) simp_all

text \<open>What one turn of the loop does to the key set and to the trace.\<close>

lemma handle_result_effects:
  fixes env st chunk
  defines "datasets \<equiv> download_europa_chunk (catalogue env) (pickled env st chunk)"
  shows "existing_urls (handle_result env st chunk) = existing_urls st \<union> url_of ` set datasets"
    and "datasets \<noteq> [] \<Longrightarrow> trace (handle_result env st chunk) =
           trace st @
           Saved datasets
             (fst (save_datasets_batch (write_fault env (fst chunk)) (store st) datasets))
           # map (\<lambda>d. Added (url_of d)) datasets"
    and "datasets = [] \<Longrightarrow> trace (handle_result env st chunk) = trace st"
proof -
  obtain off n S where args: "pickled env st chunk = (off, n, S)"
    by (cases "pickled env st chunk") auto
  have key: "\<forall>d \<in> set datasets. get d ''source_url'' = Some (url_of d)"
    unfolding datasets_def args using download_has_key by blast
  show "existing_urls (handle_result env st chunk) = existing_urls st \<union> url_of ` set datasets"
    using update_urls_eq[OF key]
    by (simp add: handle_result_def Let_def datasets_def[symmetric] split: prod.splits)
  show "datasets \<noteq> [] \<Longrightarrow> trace (handle_result env st chunk) =
           trace st @
           Saved datasets
             (fst (save_datasets_batch (write_fault env (fst chunk)) (store st) datasets))
           # map (\<lambda>d. Added (url_of d)) datasets"
    using update_urls_eq[OF key]
    by (simp add: handle_result_def Let_def datasets_def[symmetric] split: prod.splits)
  show "datasets = [] \<Longrightarrow> trace (handle_result env st chunk) = trace st"
    by (simp add: handle_result_def Let_def datasets_def[symmetric])
qed

lemma tracked_handle_result:
  assumes "tracked urls st"
  shows "tracked urls (handle_result env st chunk)"
proof (cases "download_europa_chunk (catalogue env) (pickled env st chunk) = []")
  case True
  with assms handle_result_effects(1,3)[of env st chunk] show ?thesis
    by (simp add: tracked_def)
next
  case False
  with assms handle_result_effects(1,2)[of env st chunk] show ?thesis
    by (auto simp add: tracked_def additions_append additions_added)
qed

lemma existing_urls_mono:
  "existing_urls st \<subseteq> existing_urls (foldl (handle_result env) st chunks)"
proof (induction chunks arbitrary: st)
  case Nil show ?case by simp
next
  case (Cons c chunks)
  have "existing_urls st \<subseteq> existing_urls (handle_result env st c)"
    using handle_result_effects(1)[of env st c] by simp
  with Cons.IH[of "handle_result env st c"] show ?case by auto
qed

lemma pickled_between:
  assumes "tracked urls st"
  shows "urls \<subseteq> snd (snd (pickled env st (off, n, urls)))"
    and "snd (snd (pickled env st (off, n, urls))) \<subseteq> existing_urls st"
  using assms by (auto simp add: pickled_def tracked_def dest: in_set_takeD)

lemma run_received_between:
  assumes "tracked urls st"
    and "\<forall>c \<in> set chunks. snd (snd c) = urls"
    and "c \<in> set (received (foldl (handle_result env) st chunks))"
  shows "c \<in> set (received st) \<or>
         (urls \<subseteq> snd (snd c) \<and>
          snd (snd c) \<subseteq> existing_urls (foldl (handle_result env) st chunks))"
  using assms
proof (induction chunks arbitrary: st)
  case Nil then show ?case by simp
next
  case (Cons c' chunks)
  have t': "tracked urls (handle_result env st c')"
    using Cons.prems(1) by (rule tracked_handle_result)
  from Cons.prems(2) have rest: "\<forall>c \<in> set chunks. snd (snd c) = urls" by simp
  from Cons.prems(3)
  have "c \<in> set (received (foldl (handle_result env) (handle_result env st c') chunks))"
    by simp
  from Cons.IH[OF t' rest this]
  consider (old) "c \<in> set (received st)" | (new) "c = pickled env st c'"
    | (later) "urls \<subseteq> snd (snd c) \<and>
          snd (snd c) \<subseteq> existing_urls (foldl (handle_result env) (handle_result env st c') chunks)"
    by (auto simp add: received_handle_result)
  then show ?case
  proof cases
    case old then show ?thesis by simp
  next
    case new
    obtain off n where c': "c' = (off, n, urls)"
      using Cons.prems(2) by (cases c') auto
    from pickled_between[OF Cons.prems(1), of env off n] new c'
    have "urls \<subseteq> snd (snd c)" "snd (snd c) \<subseteq> existing_urls st" by simp_all
    moreover have "existing_urls st \<subseteq> existing_urls (handle_result env st c')"
      using handle_result_effects(1)[of env st c'] by simp
    moreover note existing_urls_mono[of "handle_result env st c'" env chunks]
    ultimately show ?thesis by auto
  next
    case later then show ?thesis by simp
  qed
qed






lemma covered_create_chunks:
  "covered (create_chunks start_offset chunk_size num_chunks urls) =
     (\<Union>i < nat num_chunks.
        {start_offset + int i * chunk_size ..< start_offset + int i * chunk_size + chunk_size})"
  by (auto simp add: covered_def create_chunks_def)

lemma union_of_pages:
  "0 \<le> chunk_size \<Longrightarrow>
     (\<Union>i < m. {start_offset + int i * chunk_size ..<
                  start_offset + int i * chunk_size + chunk_size})
       = {start_offset ..< start_offset + int m * chunk_size}"
proof (induction m)
  case 0
  show ?case by simp
next
  case (Suc m)
  have le: "start_offset \<le> start_offset + int m * chunk_size"
    using Suc.prems by simp
  have "(\<Union>i < Suc m. {start_offset + int i * chunk_size ..<
                  start_offset + int i * chunk_size + chunk_size})
       = {start_offset ..< start_offset + int m * chunk_size} \<union>
         {start_offset + int m * chunk_size ..<
            start_offset + int m * chunk_size + chunk_size}"
    using Suc.IH[OF Suc.prems] by (simp add: lessThan_Suc Un_commute)
  also have "\<dots> = {start_offset ..< start_offset + int m * chunk_size + chunk_size}"
    using le Suc.prems by (intro ivl_disj_un_two) simp_all
  also have "start_offset + int m * chunk_size + chunk_size
               = start_offset + int (Suc m) * chunk_size"
    by (simp add: algebra_simps)
  finally show ?case .
qed

lemma chunks_cover_whole_pages:
  "0 \<le> chunk_size \<Longrightarrow>
     covered (create_chunks start_offset chunk_size (batch_size div chunk_size) urls)
       = {start_offset ..< start_offset + int (nat (batch_size div chunk_size)) * chunk_size}"
  by (simp add: covered_create_chunks union_of_pages)

lemma chunks_disjoint:
  assumes "i < j"
  shows "{start_offset + int i * chunk_size ..< start_offset + int i * chunk_size + chunk_size}
         \<inter> {start_offset + int j * chunk_size ..<
              start_offset + int j * chunk_size + chunk_size} = {}"
proof (cases "0 \<le> chunk_size")
  case False
  then show ?thesis by simp
next
  case True
  from assms have "int i + 1 \<le> int j" by simp
  from this True have "(int i + 1) * chunk_size \<le> int j * chunk_size"
    by (rule mult_right_mono)
  then have "start_offset + int i * chunk_size + chunk_size \<le> start_offset + int j * chunk_size"
    by (simp add: algebra_simps)
  then show ?thesis by auto
qed

section \<open>Claims about the orchestrator\<close>

text \<open>
  C2 fails on the code: the number of chunks is \<open>batch_size // chunk_size\<close>, so the
  remainder of the requested volume is asked of no chunk. For 12000 datasets from offset
  0 the chunks are \<open>(0, 5000)\<close> and \<open>(5000, 5000)\<close>: they cover the offsets from 0 to
  9999, not those from 0 to 11999. (The chunks are pairwise disjoint, \<open>chunks_disjoint\<close>,
  and cover the whole pages, \<open>chunks_cover_whole_pages\<close>.)
\<close>

theorem partition_drops_remainder:
  "create_chunks 0 5000 (12000 div 5000) {} = [(0, 5000, {}), (5000, 5000, {})] \<and>
   covered (create_chunks 0 5000 (12000 div 5000) {}) = {0 ..< 10000} \<and>
   covered (create_chunks 0 5000 (12000 div 5000) {}) \<noteq> {0 ..< 0 + 12000}"
proof -
  have chunks: "create_chunks 0 5000 (12000 div 5000) {} = [(0, 5000, {}), (5000, 5000, {})]"
    by code_simp
  have cov: "covered (create_chunks 0 5000 (12000 div 5000) {}) = {0 ..< 10000}"
    using chunks_cover_whole_pages[of 5000 0 12000 "{}"] by simp
  have "(11000::int) \<in> {0 ..< 0 + 12000}" by simp
  moreover have "(11000::int) \<notin> {0 ..< 10000}" by simp
  ultimately have "{0 ..< 10000} \<noteq> {0 ..< 0 + (12000::int)}" by blast
  with chunks cov show ?thesis by simp
qed

text \<open>
  C4, as the specification states it, fails. The two chunks of the example run both
  hold the identifier \<open>abcd\<close>, which no key set knows, and both are sent to their workers
  before a result is handled: both copies pass the filter of their fetcher and both are
  handed to the batch writer, and each key is added to the set of the main process only
  after the write of its chunk.
\<close>

theorem both_copies_pass_filter:
  "create_chunks 0 5000 (10000 div 5000) {} = [(0, 5000, {}), (5000, 5000, {})] \<and>
   received (run_chunks two_copies_env {} 0 10000 []) = [(5000, 5000, {}), (0, 5000, {})] \<and>
   extract_europa_metadata_from_string ''abcd''
     \<in> set (download_europa_chunk (catalogue two_copies_env) (0, 5000, {})) \<and>
   extract_europa_metadata_from_string ''abcd''
     \<in> set (download_europa_chunk (catalogue two_copies_env) (5000, 5000, {})) \<and>
   trace (run_chunks two_copies_env {} 0 10000 []) =
     [Saved [extract_europa_metadata_from_string ''abcd''] 1,
      Added (PStr ''https://data.europa.eu/data/datasets/abcd''),
      Saved [extract_europa_metadata_from_string ''abcd''] 1,
      Added (PStr ''https://data.europa.eu/data/datasets/abcd'')]"
  by code_simp

text \<open>
  C4, amended. The filter is in the chunk fetcher: a candidate is kept only if its
  \<open>source_url\<close> is absent from the key set that its worker received. That set is a copy
  of the set of the main process, made when the chunk is sent to the worker, at some
  moment before the result of the chunk is handled: it holds the keys of the start of the
  job, and it holds no key that the main process does not have when it handles the
  result. The main process adds the \<open>source_url\<close> of every record of a non-empty result to
  its set when it handles that result, after the batch has been written.
\<close>

theorem filter_in_fetcher_keys_added_after_write:
  assumes "\<forall>cs. mset (completion env cs) = mset cs"
  shows
  "(\<forall>d \<in> set (download_europa_chunk api (off, n, E)). url_of d \<notin> E) \<and>
   (\<forall>c \<in> set (received (run_chunks env urls start_offset batch_size db)).
      urls \<subseteq> snd (snd c) \<and>
      snd (snd c) \<subseteq> existing_urls (run_chunks env urls start_offset batch_size db)) \<and>
   (tracked (snd (snd chunk)) st \<longrightarrow>
      snd (snd chunk) \<subseteq> snd (snd (pickled env st chunk)) \<and>
      snd (snd (pickled env st chunk)) \<subseteq> existing_urls st) \<and>
   (download_europa_chunk (catalogue env) (pickled env st chunk) \<noteq> [] \<longrightarrow>
      existing_urls (handle_result env st chunk) =
        existing_urls st \<union>
        url_of ` set (download_europa_chunk (catalogue env) (pickled env st chunk)) \<and>
      trace (handle_result env st chunk) =
        trace st @
        Saved (download_europa_chunk (catalogue env) (pickled env st chunk))
          (fst (save_datasets_batch (write_fault env (fst chunk)) (store st)
                  (download_europa_chunk (catalogue env) (pickled env st chunk))))
        # map (\<lambda>d. Added (url_of d))
            (download_europa_chunk (catalogue env) (pickled env st chunk)))"
proof (intro conjI)
  show "\<forall>d \<in> set (download_europa_chunk api (off, n, E)). url_of d \<notin> E"
    using download_member by blast
next
  let ?st0 = "\<lparr>store = db, existing_urls = urls, total_saved = 0, chunk_count = 0, trace = [],
               received = []\<rparr>"
  let ?cs = "completion env (create_chunks start_offset 5000 (batch_size div 5000) urls)"
  have run: "run_chunks env urls start_offset batch_size db = foldl (handle_result env) ?st0 ?cs"
    by (simp add: run_chunks_def Let_def)
  have t0: "tracked urls ?st0" by (simp add: tracked_def)
  have "set ?cs = set (create_chunks start_offset 5000 (batch_size div 5000) urls)"
    using assms by (metis mset_eq_setD)
  then have own: "\<forall>c \<in> set ?cs. snd (snd c) = urls"
    by (auto simp add: create_chunks_def)
  show "\<forall>c \<in> set (received (run_chunks env urls start_offset batch_size db)).
      urls \<subseteq> snd (snd c) \<and>
      snd (snd c) \<subseteq> existing_urls (run_chunks env urls start_offset batch_size db)"
    unfolding run using run_received_between[OF t0 own] by auto
next
  show "tracked (snd (snd chunk)) st \<longrightarrow>
      snd (snd chunk) \<subseteq> snd (snd (pickled env st chunk)) \<and>
      snd (snd (pickled env st chunk)) \<subseteq> existing_urls st"
    using pickled_between[of "snd (snd chunk)" st env "fst chunk" "fst (snd chunk)"] by simp
next
  show "download_europa_chunk (catalogue env) (pickled env st chunk) \<noteq> [] \<longrightarrow>
      existing_urls (handle_result env st chunk) =
        existing_urls st \<union>
        url_of ` set (download_europa_chunk (catalogue env) (pickled env st chunk)) \<and>
      trace (handle_result env st chunk) =
        trace st @
        Saved (download_europa_chunk (catalogue env) (pickled env st chunk))
          (fst (save_datasets_batch (write_fault env (fst chunk)) (store st)
                  (download_europa_chunk (catalogue env) (pickled env st chunk))))
        # map (\<lambda>d. Added (url_of d))
            (download_europa_chunk (catalogue env) (pickled env st chunk))"
    using handle_result_effects(1,2)[of env st chunk] by simp
qed

theorem filter_in_fetcher_keys_added_after_write_witness:
  "(\<forall>cs. mset (completion late_pickle_env cs) = mset cs) \<and>
   received (run_chunks late_pickle_env {} 0 10000 []) =
     [(5000, 5000, {}), (0, 5000, {PStr ''https://data.europa.eu/data/datasets/abcd''})] \<and>
   existing_urls (run_chunks late_pickle_env {} 0 10000 []) =
     {PStr ''https://data.europa.eu/data/datasets/abcd''} \<and>
   trace (run_chunks late_pickle_env {} 0 10000 []) =
     [Saved [extract_europa_metadata_from_string ''abcd''] 1,
      Added (PStr ''https://data.europa.eu/data/datasets/abcd'')] \<and>
   extract_europa_metadata_from_string ''abcd''
     \<in> set (download_europa_chunk (catalogue late_pickle_env) (5000, 5000, {})) \<and>
   url_of (extract_europa_metadata_from_string ''abcd'') \<notin> ({} :: pyval set) \<and>
   tracked {}
     \<lparr>store = [], existing_urls = {}, total_saved = 0, chunk_count = 0, trace = [],
      received = []\<rparr> \<and>
   pickled late_pickle_env
     \<lparr>store = [], existing_urls = {}, total_saved = 0, chunk_count = 0, trace = [],
      received = []\<rparr> (5000, 5000, {}) = (5000, 5000, {}) \<and>
   existing_urls (handle_result late_pickle_env
       \<lparr>store = [], existing_urls = {}, total_saved = 0, chunk_count = 0, trace = [],
        received = []\<rparr> (5000, 5000, {}))
     = {PStr ''https://data.europa.eu/data/datasets/abcd''} \<and>
   trace (handle_result late_pickle_env
       \<lparr>store = [], existing_urls = {}, total_saved = 0, chunk_count = 0, trace = [],
        received = []\<rparr> (5000, 5000, {}))
     = [Saved [extract_europa_metadata_from_string ''abcd''] 1,
        Added (PStr ''https://data.europa.eu/data/datasets/abcd'')]"
proof -
  let ?st0 = "\<lparr>store = [], existing_urls = {}, total_saved = 0, chunk_count = 0, trace = [],
               received = []\<rparr> :: progress"
  have p: "\<forall>cs. mset (completion late_pickle_env cs) = mset cs"
    by (simp add: late_pickle_env_def two_copies_env_def)
  have r: "received (run_chunks late_pickle_env {} 0 10000 []) =
     [(5000, 5000, {}), (0, 5000, {PStr ''https://data.europa.eu/data/datasets/abcd''})]"
    by code_simp
  have e: "existing_urls (run_chunks late_pickle_env {} 0 10000 []) =
     {PStr ''https://data.europa.eu/data/datasets/abcd''}"
    by code_simp
  have tr: "trace (run_chunks late_pickle_env {} 0 10000 []) =
     [Saved [extract_europa_metadata_from_string ''abcd''] 1,
      Added (PStr ''https://data.europa.eu/data/datasets/abcd'')]"
    by code_simp
  have t: "tracked {} ?st0" by (simp add: tracked_def)
  have pk: "pickled late_pickle_env ?st0 (5000, 5000, {}) = (5000, 5000, {})"
    by (simp add: pickled_def)
  have ds: "download_europa_chunk (catalogue late_pickle_env) (5000, 5000, {})
              = [extract_europa_metadata_from_string ''abcd'']"
    by code_simp
  have u: "url_of (extract_europa_metadata_from_string ''abcd'')
             = PStr ''https://data.europa.eu/data/datasets/abcd''"
    by code_simp
  have k: "fst (save_datasets_batch (write_fault late_pickle_env 5000) []
                  [extract_europa_metadata_from_string ''abcd'']) = 1"
    by code_simp
  from filter_in_fetcher_keys_added_after_write[OF p,
         of "catalogue late_pickle_env" 5000 5000 "{}" "{}" 0 10000 "[]" "(5000, 5000, {})" ?st0]
       p r e tr t pk ds u k
  show ?thesis by simp
qed







end
